theory Spec2Isabelle
  imports Complex_Main
begin

section \<open>Bias audit dashboard: data model\<close>

text \<open>
  The dashboard component \<^verbatim>\<open>BiasAuditDashboard.tsx\<close> is embedded as pure functions over
  records. JavaScript numbers are modelled as exact reals, \<^verbatim>\<open>Math.sin\<close> as \<^const>\<open>sin\<close>,
  dates as milliseconds since the epoch. The two sources of nondeterminism of the code, the
  clock (\<^verbatim>\<open>Date.now()\<close>, \<^verbatim>\<open>dayjs()\<close>, \<^verbatim>\<open>new Date()\<close>) and \<^verbatim>\<open>Math.random()\<close>, are
  explicit inputs: the \<open>k\<close>-th reading of the clock and the \<open>k\<close>-th random draw.
\<close>

datatype MetricStatus = Excellent | Moderate | HighRisk

datatype Trend = Uptrend | Stable | Dropping

datatype Severity = Low | Medium | High

record BiasMetric =
  name :: string
  metric_value :: real
  pValue :: real
  status :: MetricStatus
  interpretation_text :: string
  trend :: Trend

record AlertItem =
  alert_id :: string
  timestamp :: int
  severity :: Severity
  title :: string
  message :: string
  metric :: string

record GenderCounts =
  male :: int
  female :: int
  non_binary :: int

record AgeCounts =
  age_18_25 :: int
  age_26_35 :: int
  age_36_45 :: int
  age_46_plus :: int

record EthnicityCounts =
  white :: int
  black :: int
  hispanic :: int
  asian :: int
  other :: int

record DemographicData =
  gender :: GenderCounts
  age :: AgeCounts
  ethnicity :: EthnicityCounts

record TimeSeriesPoint =
  date :: int
  overall_bias :: real
  gender_bias :: real
  age_bias :: real
  ethnic_bias :: real
  socioeconomic_bias :: real

record DummyData =
  biasMetrics :: "BiasMetric list"
  alerts :: "AlertItem list"
  demographicData :: DemographicData
  timeSeriesData :: "TimeSeriesPoint list"

text \<open>
  The environment of a call: \<open>clock k\<close> is the \<open>k\<close>-th reading of the clock made by the
  call, \<open>random k\<close> the result of its \<open>k\<close>-th \<^verbatim>\<open>Math.random()\<close>, and \<open>subtractDays t n\<close>
  is the library's calendar arithmetic \<^verbatim>\<open>dayjs(t).subtract(n, 'day')\<close>, which is not code
  of the component.
\<close>

record Env =
  clock :: "nat \<Rightarrow> int"
  random :: "nat \<Rightarrow> real"
  subtractDays :: "int \<Rightarrow> nat \<Rightarrow> int"

section \<open>The synthetic data generator\<close>

definition seedMetrics :: "BiasMetric list" where
  "seedMetrics =
    [\<lparr>name = ''Gender Bias'', metric_value = 0.087, pValue = 0.023, status = Moderate,
      interpretation_text = ''Moderate gender bias detected in course completion rates'',
      trend = Uptrend\<rparr>,
     \<lparr>name = ''Age Discrimination'', metric_value = 0.156, pValue = 0.001, status = HighRisk,
      interpretation_text = ''Significant age-based disparities in grade distributions'',
      trend = Dropping\<rparr>,
     \<lparr>name = ''Ethnic Fairness'', metric_value = 0.043, pValue = 0.124, status = Excellent,
      interpretation_text = ''No significant ethnic bias detected'',
      trend = Stable\<rparr>,
     \<lparr>name = ''Socioeconomic Impact'', metric_value = 0.112, pValue = 0.008, status = HighRisk,
      interpretation_text = ''Concerning socioeconomic disparities in learning outcomes'',
      trend = Dropping\<rparr>]"

definition seedAlerts :: "Env \<Rightarrow> AlertItem list" where
  "seedAlerts env =
    [\<lparr>alert_id = ''1'', timestamp = clock env 0 - 1000 * 60 * 15, severity = High,
      title = ''Age Bias Threshold Exceeded'',
      message = ''Completion rate gap between age groups exceeded 15%'',
      metric = ''age_discrimination''\<rparr>,
     \<lparr>alert_id = ''2'', timestamp = clock env 1 - 1000 * 60 * 45, severity = Medium,
      title = ''Gender Performance Gap'',
      message = ''Statistical significance detected in grade distributions'',
      metric = ''gender_bias''\<rparr>,
     \<lparr>alert_id = ''3'', timestamp = clock env 2 - 1000 * 60 * 120, severity = Low,
      title = ''Sample Size Warning'',
      message = ''Insufficient data for reliable analysis in Computer Science course'',
      metric = ''sample_size''\<rparr>]"

definition seedDemographics :: DemographicData where
  "seedDemographics =
    \<lparr>gender = \<lparr>male = 2847, female = 3156, non_binary = 97\<rparr>,
     age = \<lparr>age_18_25 = 2890, age_26_35 = 2045, age_36_45 = 998, age_46_plus = 167\<rparr>,
     ethnicity = \<lparr>white = 2456, black = 1234, hispanic = 1456, asian = 789, other = 165\<rparr>\<rparr>"

text \<open>
  \<^verbatim>\<open>dates\<close>: thirty readings of the clock (readings 3 to 32, after the three of the
  alerts), each moved back by \<open>29 - i\<close> days.
\<close>

definition dates :: "Env \<Rightarrow> int list" where
  "dates env = map (\<lambda>i. subtractDays env (clock env (3 + i)) (29 - i)) [0..<30]"

text \<open>
  The body of the \<^verbatim>\<open>dates.map((date, i) => ...)\<close> callback. The five properties of the
  object literal are evaluated in order, so index \<open>i\<close> consumes the draws \<open>5 i\<close> to
  \<open>5 i + 4\<close>.
\<close>

definition timeSeriesPoint :: "Env \<Rightarrow> int \<Rightarrow> nat \<Rightarrow> TimeSeriesPoint" where
  "timeSeriesPoint env d i =
    \<lparr>date = d,
     overall_bias = 0.08 + sin (real i * 0.2) * 0.02 + random env (5 * i) * 0.01,
     gender_bias = 0.087 + sin (real i * 0.15) * 0.015 + random env (5 * i + 1) * 0.008,
     age_bias = 0.156 - real i * 0.002 + random env (5 * i + 2) * 0.01,
     ethnic_bias = 0.043 + random env (5 * i + 3) * 0.005,
     socioeconomic_bias = 0.112 + sin (real i * 0.1) * 0.02 + random env (5 * i + 4) * 0.008\<rparr>"

definition generateDummyData :: "Env \<Rightarrow> DummyData" where
  "generateDummyData env =
    \<lparr>biasMetrics = seedMetrics,
     alerts = seedAlerts env,
     demographicData = seedDemographics,
     timeSeriesData = map (\<lambda>(d, i). timeSeriesPoint env d i) (zip (dates env) [0..<30])\<rparr>"

section \<open>The dashboard state\<close>

text \<open>
  The chart held for the full-screen modal is identified by the builder that made it
  (\<^verbatim>\<open>createBiasHeatmap\<close> or \<^verbatim>\<open>createDemographicChart\<close>); its plot data play no part
  in the state transitions.
\<close>

datatype Viz = BiasHeatmap | DemographicChart

record Filters =
  protectedAttributes :: "string list"
  outcomeVariable :: string
  dateRange :: "int \<times> int"
  biasThreshold :: real
  minimumSampleSize :: real

text \<open>
  The component's state: the \<^verbatim>\<open>useState\<close> cells, the bundle held by \<^verbatim>\<open>useMemo\<close>, and the
  interval timer owned by the effect. \<open>interval = None\<close> when no timer is registered,
  \<open>Some e\<close> when one is, \<open>e\<close> milliseconds after its registration or its last firing.
\<close>

record State =
  activeTab :: string
  realTimeEnabled :: bool
  selectedVisualization :: "Viz option"
  filters :: Filters
  memo :: DummyData
  currentBiasScore :: real
  realtimeData :: "TimeSeriesPoint list"
  interval :: "nat option"

text \<open>
  Mounting: the initial filters read the clock twice, then \<^verbatim>\<open>generateDummyData\<close> runs
  once; the effect runs with the flag set and registers the timer.
\<close>

definition mount :: "Env \<Rightarrow> State" where
  "mount env =
    (let bundle = generateDummyData (env\<lparr>clock := \<lambda>k. clock env (k + 2)\<rparr>) in
     \<lparr>activeTab = ''overview'',
      realTimeEnabled = True,
      selectedVisualization = None,
      filters = \<lparr>protectedAttributes = [''gender'', ''age''],
                 outcomeVariable = ''completion_rate'',
                 dateRange = (subtractDays env (clock env 0) 30, clock env 1),
                 biasThreshold = 0.1,
                 minimumSampleSize = 30\<rparr>,
      memo = bundle,
      currentBiasScore = 0.092,
      realtimeData = timeSeriesData bundle,
      interval = Some 0\<rparr>)"

section \<open>The periodic updater\<close>

text \<open>
  What one firing of the timer callback reads: the clock (\<^verbatim>\<open>new Date()\<close>) and five
  random draws, in the order of the source.
\<close>

record TickInput =
  now :: int
  draw_overall :: real
  draw_gender :: real
  draw_age :: real
  draw_ethnic :: real
  draw_socioeconomic :: real

definition newScore :: "TickInput \<Rightarrow> real" where
  "newScore inp = 0.092 + (draw_overall inp - 0.5) * 0.02"

definition newPoint :: "TickInput \<Rightarrow> TimeSeriesPoint" where
  "newPoint inp =
    \<lparr>date = now inp,
     overall_bias = newScore inp,
     gender_bias = 0.087 + (draw_gender inp - 0.5) * 0.01,
     age_bias = 0.156 + (draw_age inp - 0.5) * 0.015,
     ethnic_bias = 0.043 + (draw_ethnic inp - 0.5) * 0.005,
     socioeconomic_bias = 0.112 + (draw_socioeconomic inp - 0.5) * 0.02\<rparr>"

text \<open>The callback passed to \<^verbatim>\<open>setInterval\<close>; \<^verbatim>\<open>prev.slice(1)\<close> is \<open>drop 1\<close>.\<close>

definition intervalCallback :: "State \<Rightarrow> TickInput \<Rightarrow> State" where
  "intervalCallback s inp =
    s\<lparr>currentBiasScore := max 0 (min 0.3 (newScore inp)),
      realtimeData := drop 1 (realtimeData s) @ [newPoint inp]\<rparr>"

definition ticks :: "State \<Rightarrow> TickInput list \<Rightarrow> State" where
  "ticks s inps = foldl intervalCallback s inps"

text \<open>
  \<^verbatim>\<open>setRealTimeEnabled\<close>: setting the flag to its current value re-renders nothing.
  A change re-runs the effect: its cleanup clears the timer, and its body registers a new
  one (period 2000 ms) only when the flag is set.
\<close>

definition setRealTimeEnabled :: "State \<Rightarrow> bool \<Rightarrow> State" where
  "setRealTimeEnabled s b =
    (if b = realTimeEnabled s then s
     else s\<lparr>realTimeEnabled := b, interval := (if \<not> b then None else Some 0)\<rparr>)"

text \<open>One millisecond passes; the callback fires when the timer reaches its period.\<close>

definition elapse :: "State \<Rightarrow> TickInput \<Rightarrow> State" where
  "elapse s inp =
    (case interval s of
       None \<Rightarrow> s
     | Some e \<Rightarrow>
         if Suc e < 2000 then s\<lparr>interval := Some (Suc e)\<rparr>
         else (intervalCallback s inp)\<lparr>interval := Some 0\<rparr>)"

section \<open>The view's handlers and helpers\<close>

datatype BadgeStatus = Success | Warning | Error

record BiasStatus =
  badge :: BadgeStatus
  label :: string
  color :: string

definition getBiasStatus :: "real \<Rightarrow> BiasStatus" where
  "getBiasStatus score =
    (if score < 0.05 then \<lparr>badge = Success, label = ''Excellent'', color = ''#52c41a''\<rparr>
     else if score < 0.1 then \<lparr>badge = Warning, label = ''Moderate'', color = ''#faad14''\<rparr>
     else \<lparr>badge = Error, label = ''High Risk'', color = ''#f5222d''\<rparr>)"

text \<open>The summary card's tag: colour from the stored status, text from the value.\<close>

definition tagColor :: "BiasMetric \<Rightarrow> string" where
  "tagColor m =
    (if status m = Excellent then ''green''
     else if status m = Moderate then ''orange'' else ''red'')"

definition tagText :: "BiasMetric \<Rightarrow> string" where
  "tagText m = label (getBiasStatus (metric_value m))"

text \<open>The results table's status column, rendered from the stored status.\<close>

definition statusColumn :: "MetricStatus \<Rightarrow> BadgeStatus \<times> string" where
  "statusColumn st =
    (if st = Excellent then Success else if st = Moderate then Warning else Error,
     if st = Excellent then ''Excellent''
     else if st = Moderate then ''Moderate'' else ''High Risk'')"

text \<open>
  The range picker's \<^verbatim>\<open>onChange\<close>: its argument is \<^verbatim>\<open>null\<close> or an array of endpoints,
  each a date or \<^verbatim>\<open>null\<close>.
\<close>

definition onDateRangeChange :: "State \<Rightarrow> int option list option \<Rightarrow> State" where
  "onDateRangeChange s dates_arg =
    (case dates_arg of
       None \<Rightarrow> s
     | Some ds \<Rightarrow>
         if length ds \<noteq> 2 then s
         else (case (ds ! 0, ds ! 1) of
                 (Some a, Some b) \<Rightarrow> s\<lparr>filters := (filters s)\<lparr>dateRange := (a, b)\<rparr>\<rparr>
               | _ \<Rightarrow> s))"

text \<open>The other handlers, and the events the component reacts to.\<close>

datatype Event =
    Elapse TickInput
  | Toggle bool
  | DateRangeChange "int option list option"
  | TabChange string
  | AttributesChange "string list"
  | OutcomeChange string
  | ThresholdChange real
  | ShowVisualization Viz
  | CloseVisualization

fun handle :: "State \<Rightarrow> Event \<Rightarrow> State" where
  "handle s (Elapse inp) = elapse s inp"
| "handle s (Toggle b) = setRealTimeEnabled s b"
| "handle s (DateRangeChange ds) = onDateRangeChange s ds"
| "handle s (TabChange k) = s\<lparr>activeTab := k\<rparr>"
| "handle s (AttributesChange v) = s\<lparr>filters := (filters s)\<lparr>protectedAttributes := v\<rparr>\<rparr>"
| "handle s (OutcomeChange v) = s\<lparr>filters := (filters s)\<lparr>outcomeVariable := v\<rparr>\<rparr>"
| "handle s (ThresholdChange v) = s\<lparr>filters := (filters s)\<lparr>biasThreshold := v\<rparr>\<rparr>"
| "handle s (ShowVisualization v) = s\<lparr>selectedVisualization := Some v\<rparr>"
| "handle s CloseVisualization = s\<lparr>selectedVisualization := None\<rparr>"

definition run :: "State \<Rightarrow> Event list \<Rightarrow> State" where
  "run s evs = foldl handle s evs"

section \<open>Specification-side notions and sample inputs\<close>

text \<open>
  The formula shape of the specification, for a channel of the initial time series: a base,
  plus a sinusoid in the index, plus one of the index's random draws scaled by a noise factor.
\<close>

definition spec_formula_shape :: "(TimeSeriesPoint \<Rightarrow> real) \<Rightarrow> bool" where
  "spec_formula_shape channel \<longleftrightarrow>
    (\<exists>base frequency amplitude noise k. \<forall>env. \<forall>i<30.
       channel (timeSeriesData (generateDummyData env) ! i) =
         base + sin (real i * frequency) * amplitude + random env (5 * i + k) * noise)"

text \<open>The threshold function of the specification, on the stored status tags.\<close>

definition spec_threshold :: "real \<Rightarrow> MetricStatus" where
  "spec_threshold v = (if v < 0.05 then Excellent else if v < 0.1 then Moderate else HighRisk)"

text \<open>
  The effect keeps a timer registered exactly while the flag is set, and a registered timer
  has not yet reached its period.
\<close>

definition timer_inv :: "State \<Rightarrow> bool" where
  "timer_inv s =
    (case interval s of None \<Rightarrow> \<not> realTimeEnabled s | Some e \<Rightarrow> realTimeEnabled s \<and> e < 2000)"

text \<open>Sample environments and a sample firing, used to instantiate the theorems.\<close>

definition demoEnv :: Env where
  "demoEnv =
    \<lparr>clock = (\<lambda>k. 0), random = (\<lambda>k. 0), subtractDays = (\<lambda>t n. t - int n * 86400000)\<rparr>"

definition demoEnv2 :: Env where
  "demoEnv2 =
    \<lparr>clock = (\<lambda>k. 0), random = (\<lambda>k. 1 / 2), subtractDays = (\<lambda>t n. t - int n * 86400000)\<rparr>"


definition demoTick :: TickInput where
  "demoTick = \<lparr>now = 2000, draw_overall = 1 / 4, draw_gender = 1 / 2, draw_age = 0,
               draw_ethnic = 3 / 4, draw_socioeconomic = 1 / 2\<rparr>"

section \<open>The initial snapshot\<close>

lemma length_dates: "length (dates env) = 30"
  by (simp add: dates_def)

lemma length_timeSeriesData: "length (timeSeriesData (generateDummyData env)) = 30"
  by (simp add: generateDummyData_def length_dates)

lemma nth_dates: "i < 30 \<Longrightarrow> dates env ! i = subtractDays env (clock env (3 + i)) (29 - i)"
  by (simp add: dates_def)

lemma nth_timeSeriesData:
  "i < 30 \<Longrightarrow> timeSeriesData (generateDummyData env) ! i = timeSeriesPoint env (dates env ! i) i"
  by (simp add: generateDummyData_def length_dates)

text \<open>
  C1 (as stated): every one of the five channels of the initial time series has the shape
  base + sin(i * frequency) * amplitude + random * noise. The age channel does not: it
  falls linearly with the index, and no choice of base, frequency, amplitude and noise
  turns a sinusoid into that line on the indices 0, 1 and 2.
\<close>

theorem age_channel_not_sinusoid: "\<not> spec_formula_shape age_bias"
proof
  assume "spec_formula_shape age_bias"
  then obtain b f a n k where
    h: "\<And>env i. i < 30 \<Longrightarrow> age_bias (timeSeriesData (generateDummyData env) ! i) =
         b + sin (real i * f) * a + random env (5 * i + k) * n"
    unfolding spec_formula_shape_def by blast
  have v: "\<And>i. i < 30 \<Longrightarrow>
      age_bias (timeSeriesData (generateDummyData demoEnv) ! i) = 0.156 - real i * 0.002"
    by (simp add: nth_timeSeriesData timeSeriesPoint_def demoEnv_def)
  have e: "\<And>i. i < 30 \<Longrightarrow> 0.156 - real i * 0.002 = b + sin (real i * f) * a"
    using h [of _ demoEnv] v by (simp add: demoEnv_def)
  from e [of 0] have b: "b = 0.156" by simp
  from e [of 1] b have s1: "sin f * a = - 0.002" by simp
  from e [of 2] b have s2: "sin (2 * f) * a = - 0.004" by simp
  have "sin (2 * f) * a = 2 * cos f * (sin f * a)" by (simp add: sin_double)
  with s1 s2 have c: "cos f = 1" by simp
  have "sin f ^ 2 + cos f ^ 2 = 1" by simp
  with c have "sin f = 0" by simp
  with s1 show False by simp
qed

text \<open>
  C1 (amended): at each index \<open>i\<close> in [0,30) the point of the initial time series has its
  date \<open>29 - i\<close> days before the clock, the overall, gender and socioeconomic channels
  are a base plus a sinusoid in \<open>i\<close> plus a scaled random draw, the ethnic channel is a
  base plus a scaled random draw with no sinusoid, and the age channel is a base minus
  0.002 per index plus a scaled random draw.
\<close>

theorem initial_series_formulas:
  "i < 30 \<Longrightarrow>
     date (timeSeriesData (generateDummyData env) ! i) =
       subtractDays env (clock env (3 + i)) (29 - i) \<and>
     overall_bias (timeSeriesData (generateDummyData env) ! i) =
       0.08 + sin (real i * 0.2) * 0.02 + random env (5 * i) * 0.01 \<and>
     gender_bias (timeSeriesData (generateDummyData env) ! i) =
       0.087 + sin (real i * 0.15) * 0.015 + random env (5 * i + 1) * 0.008 \<and>
     age_bias (timeSeriesData (generateDummyData env) ! i) =
       0.156 - real i * 0.002 + random env (5 * i + 2) * 0.01 \<and>
     ethnic_bias (timeSeriesData (generateDummyData env) ! i) =
       0.043 + random env (5 * i + 3) * 0.005 \<and>
     socioeconomic_bias (timeSeriesData (generateDummyData env) ! i) =
       0.112 + sin (real i * 0.1) * 0.02 + random env (5 * i + 4) * 0.008"
  by (simp add: nth_timeSeriesData nth_dates timeSeriesPoint_def)

theorem initial_series_formulas_witness:
  "(0::nat) < 30 \<and>
     overall_bias (timeSeriesData (generateDummyData demoEnv2) ! 0) = 0.085 \<and>
     gender_bias (timeSeriesData (generateDummyData demoEnv2) ! 0) = 0.091 \<and>
     age_bias (timeSeriesData (generateDummyData demoEnv2) ! 0) = 0.161 \<and>
     ethnic_bias (timeSeriesData (generateDummyData demoEnv2) ! 0) = 0.0455 \<and>
     socioeconomic_bias (timeSeriesData (generateDummyData demoEnv2) ! 0) = 0.116"
  using initial_series_formulas [of 0 demoEnv2] by (simp add: demoEnv2_def)

text \<open>
  C9: the initial snapshot carries the seed literals: the four metric values, exactly
  three alerts, the demographic counts, and a gender total of 6100.
\<close>

theorem seed_literals:
  "map metric_value (biasMetrics (generateDummyData env)) = [0.087, 0.156, 0.043, 0.112] \<and>
   length (alerts (generateDummyData env)) = 3 \<and>
   demographicData (generateDummyData env) =
     \<lparr>gender = \<lparr>male = 2847, female = 3156, non_binary = 97\<rparr>,
      age = \<lparr>age_18_25 = 2890, age_26_35 = 2045, age_36_45 = 998, age_46_plus = 167\<rparr>,
      ethnicity = \<lparr>white = 2456, black = 1234, hispanic = 1456, asian = 789, other = 165\<rparr>\<rparr> \<and>
   male (gender (demographicData (generateDummyData env)))
     + female (gender (demographicData (generateDummyData env)))
     + non_binary (gender (demographicData (generateDummyData env))) = 6100"
  by (simp add: generateDummyData_def seedMetrics_def seedAlerts_def seedDemographics_def)

text \<open>
  The shape is met by the three channels that do have a sinusoid, and degenerately (with
  amplitude 0) by the ethnic channel.
\<close>

lemma sinusoid_channels:
  "spec_formula_shape overall_bias \<and> spec_formula_shape gender_bias \<and>
   spec_formula_shape socioeconomic_bias \<and> spec_formula_shape ethnic_bias"
proof -
  have "\<forall>env. \<forall>i<30. overall_bias (timeSeriesData (generateDummyData env) ! i) =
      0.08 + sin (real i * 0.2) * 0.02 + random env (5 * i + 0) * 0.01"
    by (simp add: nth_timeSeriesData timeSeriesPoint_def)
  then have a: "spec_formula_shape overall_bias"
    unfolding spec_formula_shape_def by blast
  have "\<forall>env. \<forall>i<30. gender_bias (timeSeriesData (generateDummyData env) ! i) =
      0.087 + sin (real i * 0.15) * 0.015 + random env (5 * i + 1) * 0.008"
    by (simp add: nth_timeSeriesData timeSeriesPoint_def)
  then have b: "spec_formula_shape gender_bias"
    unfolding spec_formula_shape_def by blast
  have "\<forall>env. \<forall>i<30. socioeconomic_bias (timeSeriesData (generateDummyData env) ! i) =
      0.112 + sin (real i * 0.1) * 0.02 + random env (5 * i + 4) * 0.008"
    by (simp add: nth_timeSeriesData timeSeriesPoint_def)
  then have c: "spec_formula_shape socioeconomic_bias"
    unfolding spec_formula_shape_def by blast
  have "\<forall>env. \<forall>i<30. ethnic_bias (timeSeriesData (generateDummyData env) ! i) =
      0.043 + sin (real i * 0) * 0 + random env (5 * i + 3) * 0.005"
    by (simp add: nth_timeSeriesData timeSeriesPoint_def)
  then have d: "spec_formula_shape ethnic_bias"
    unfolding spec_formula_shape_def by blast
  from a b c d show ?thesis by blast
qed

subsection \<open>What the generator depends on\<close>















section \<open>Status tags\<close>

text \<open>
  C2: the status shown for a value is the threshold function of that value (below 0.05
  excellent, from 0.05 and below 0.1 moderate, from 0.1 high risk), and for each of the
  four seed metrics the stored status is that function of the stored value, so the tag
  text, the tag colour and the table's status column all agree with it.
\<close>

theorem status_tag_matches_threshold:
  "(v < 0.05 \<longrightarrow> label (getBiasStatus v) = ''Excellent'' \<and> badge (getBiasStatus v) = Success) \<and>
   (0.05 \<le> v \<and> v < 0.1 \<longrightarrow>
      label (getBiasStatus v) = ''Moderate'' \<and> badge (getBiasStatus v) = Warning) \<and>
   (0.1 \<le> v \<longrightarrow> label (getBiasStatus v) = ''High Risk'' \<and> badge (getBiasStatus v) = Error) \<and>
   (\<forall>m \<in> set (biasMetrics (generateDummyData env)).
      status m = spec_threshold (metric_value m) \<and>
      statusColumn (status m) = (badge (getBiasStatus (metric_value m)), tagText m) \<and>
      tagColor m = (if spec_threshold (metric_value m) = Excellent then ''green''
                    else if spec_threshold (metric_value m) = Moderate then ''orange''
                    else ''red''))"
  by (simp add: getBiasStatus_def generateDummyData_def seedMetrics_def spec_threshold_def
      statusColumn_def tagText_def tagColor_def)

theorem status_tag_matches_threshold_witness:
  "(0.087::real) \<ge> 0.05 \<and> (0.087::real) < 0.1 \<and> label (getBiasStatus 0.087) = ''Moderate'' \<and>
   hd (biasMetrics (generateDummyData demoEnv)) \<in> set (biasMetrics (generateDummyData demoEnv)) \<and>
   status (hd (biasMetrics (generateDummyData demoEnv))) = spec_threshold 0.087"
  using status_tag_matches_threshold [of "0.087" demoEnv]
  by (simp add: generateDummyData_def seedMetrics_def)

section \<open>The updater's transition\<close>

lemma run_Nil: "run s [] = s"
  by (simp add: run_def)

lemma run_Cons: "run s (ev # evs) = run (handle s ev) evs"
  by (simp add: run_def)

lemma run_append: "run s (xs @ ys) = run (run s xs) ys"
  by (simp add: run_def)

lemma ticks_snoc: "ticks s (inps @ [inp]) = intervalCallback (ticks s inps) inp"
  by (simp add: ticks_def)

subsection \<open>The rolling window\<close>

lemma length_callback:
  "length (realtimeData s) = 30 \<Longrightarrow> length (realtimeData (intervalCallback s inp)) = 30"
  by (simp add: intervalCallback_def)

lemma length_mount: "length (realtimeData (mount env)) = 30"
  by (simp add: mount_def Let_def length_timeSeriesData)

lemma length_ticks:
  "length (realtimeData s) = 30 \<Longrightarrow> length (realtimeData (ticks s inps)) = 30"
  by (induction inps rule: rev_induct) (simp_all add: ticks_def length_callback)

lemma length_handle:
  "length (realtimeData s) = 30 \<Longrightarrow> length (realtimeData (handle s ev)) = 30"
  by (cases ev)
    (simp_all add: elapse_def intervalCallback_def setRealTimeEnabled_def onDateRangeChange_def
      split: option.splits)

lemma length_run:
  "length (realtimeData s) = 30 \<Longrightarrow> length (realtimeData (run s evs)) = 30"
  by (induction evs arbitrary: s) (simp_all add: run_Nil run_Cons length_handle)

text \<open>
  C3: from the mounted component, after any number of firings of the updater the window
  holds exactly 30 points; a firing yields the previous window without its oldest point,
  followed by the one new point. The length is 30 after any sequence of events as well.
\<close>

theorem window_length_invariant:
  "length (realtimeData (ticks (mount env) inps)) = 30 \<and>
   realtimeData (ticks (mount env) (inps @ [inp])) =
     tl (realtimeData (ticks (mount env) inps)) @ [newPoint inp] \<and>
   length (realtimeData (run (mount env) evs)) = 30"
  by (simp add: length_ticks length_run length_mount ticks_snoc intervalCallback_def drop_Suc)

subsection \<open>The score and the new point\<close>

lemma clamp_bounds: "0 \<le> max 0 (min 0.3 (x::real)) \<and> max 0 (min 0.3 x) \<le> 0.3"
  by (simp add: max_def min_def)

lemma clamp_id: "0 \<le> x \<Longrightarrow> x \<le> 0.3 \<Longrightarrow> max 0 (min 0.3 (x::real)) = x"
  by (simp add: max_def min_def)

lemma newScore_lower: "0 \<le> draw_overall inp \<Longrightarrow> 0.082 \<le> newScore inp"
  unfolding newScore_def by simp argo

lemma newScore_upper: "draw_overall inp < 1 \<Longrightarrow> newScore inp < 0.102"
  unfolding newScore_def by simp

lemma near_base: "0.082 \<le> (x::real) \<Longrightarrow> x < 0.102 \<Longrightarrow> \<bar>x - 0.092\<bar> \<le> 0.01"
  by simp argo

lemma within_clamp: "0.082 \<le> (x::real) \<Longrightarrow> x < 0.102 \<Longrightarrow> max 0 (min 0.3 x) = x"
  by (rule clamp_id) simp_all

lemma tick_score: "currentBiasScore (intervalCallback s inp) = max 0 (min 0.3 (newScore inp))"
  by (simp add: intervalCallback_def)

lemma tick_last: "last (realtimeData (intervalCallback s inp)) = newPoint inp"
  by (simp add: intervalCallback_def)

text \<open>
  C4: a firing of the updater computes the new score as 0.092 plus (draw - 0.5) * 0.02,
  which for a draw in [0,1) is within 0.01 of 0.092; it stores the score clamped to
  [0, 0.3]; and the point it appends carries the current timestamp, the new score and
  the four other channels, each its base plus a centred draw times its range.
\<close>

theorem tick_transition:
  "currentBiasScore (intervalCallback s inp) =
     max 0 (min 0.3 (0.092 + (draw_overall inp - 0.5) * 0.02)) \<and>
   0 \<le> currentBiasScore (intervalCallback s inp) \<and>
   currentBiasScore (intervalCallback s inp) \<le> 0.3 \<and>
   last (realtimeData (intervalCallback s inp)) =
     \<lparr>date = now inp,
      overall_bias = 0.092 + (draw_overall inp - 0.5) * 0.02,
      gender_bias = 0.087 + (draw_gender inp - 0.5) * 0.01,
      age_bias = 0.156 + (draw_age inp - 0.5) * 0.015,
      ethnic_bias = 0.043 + (draw_ethnic inp - 0.5) * 0.005,
      socioeconomic_bias = 0.112 + (draw_socioeconomic inp - 0.5) * 0.02\<rparr> \<and>
   (0 \<le> draw_overall inp \<and> draw_overall inp < 1 \<longrightarrow>
      \<bar>overall_bias (last (realtimeData (intervalCallback s inp))) - 0.092\<bar> \<le> 0.01)"
proof -
  have a: "currentBiasScore (intervalCallback s inp) =
      max 0 (min 0.3 (0.092 + (draw_overall inp - 0.5) * 0.02))"
    by (simp add: tick_score newScore_def)
  have b: "0 \<le> currentBiasScore (intervalCallback s inp) \<and>
      currentBiasScore (intervalCallback s inp) \<le> 0.3"
    unfolding tick_score by (rule clamp_bounds)
  have c: "last (realtimeData (intervalCallback s inp)) =
     \<lparr>date = now inp,
      overall_bias = 0.092 + (draw_overall inp - 0.5) * 0.02,
      gender_bias = 0.087 + (draw_gender inp - 0.5) * 0.01,
      age_bias = 0.156 + (draw_age inp - 0.5) * 0.015,
      ethnic_bias = 0.043 + (draw_ethnic inp - 0.5) * 0.005,
      socioeconomic_bias = 0.112 + (draw_socioeconomic inp - 0.5) * 0.02\<rparr>"
    by (simp add: tick_last newPoint_def newScore_def)
  have d: "\<bar>overall_bias (last (realtimeData (intervalCallback s inp))) - 0.092\<bar> \<le> 0.01"
    if "0 \<le> draw_overall inp \<and> draw_overall inp < 1"
  proof -
    have "\<bar>newScore inp - 0.092\<bar> \<le> 0.01"
      using that by (intro near_base newScore_lower newScore_upper) simp_all
    then show ?thesis by (simp add: tick_last newPoint_def)
  qed
  from a b c d show ?thesis by blast
qed

theorem tick_transition_witness:
  "0 \<le> draw_overall demoTick \<and> draw_overall demoTick < 1 \<and>
   currentBiasScore (intervalCallback (mount demoEnv) demoTick) = 0.087 \<and>
   overall_bias (last (realtimeData (intervalCallback (mount demoEnv) demoTick))) = 0.087 \<and>
   date (last (realtimeData (intervalCallback (mount demoEnv) demoTick))) = 2000"
  using tick_transition [of "mount demoEnv" demoTick]
  by (simp add: demoTick_def)

text \<open>
  C10: after a firing of the updater whose draw lies in [0,1), the stored score equals the
  overall channel of the newest point of the window: the point holds the unclamped score,
  which lies between 0.082 and 0.102, where the clamp to [0, 0.3] changes nothing.
\<close>

theorem score_equals_newest_overall:
  "0 \<le> draw_overall inp \<Longrightarrow> draw_overall inp < 1 \<Longrightarrow>
   currentBiasScore (intervalCallback s inp) =
     overall_bias (last (realtimeData (intervalCallback s inp))) \<and>
   0.082 \<le> overall_bias (last (realtimeData (intervalCallback s inp))) \<and>
   overall_bias (last (realtimeData (intervalCallback s inp))) \<le> 0.102"
proof -
  assume r: "0 \<le> draw_overall inp" "draw_overall inp < 1"
  have lo: "0.082 \<le> newScore inp"
    using r(1) by (rule newScore_lower)
  have hi: "newScore inp < 0.102"
    using r(2) by (rule newScore_upper)
  from lo hi have "max 0 (min 0.3 (newScore inp)) = newScore inp"
    by (rule within_clamp)
  with lo hi show ?thesis
    by (simp add: tick_score tick_last newPoint_def)
qed

theorem score_equals_newest_overall_witness:
  "0 \<le> draw_overall demoTick \<and> draw_overall demoTick < 1 \<and>
   currentBiasScore (intervalCallback (mount demoEnv) demoTick) =
     overall_bias (last (realtimeData (intervalCallback (mount demoEnv) demoTick)))"
  using score_equals_newest_overall [of demoTick "mount demoEnv"]
  by (simp add: demoTick_def)

subsection \<open>What the updater leaves alone\<close>

lemma memo_handle: "memo (handle s ev) = memo s"
  by (cases ev)
    (simp_all add: elapse_def intervalCallback_def setRealTimeEnabled_def onDateRangeChange_def
      split: option.splits)

lemma memo_run: "memo (run s evs) = memo s"
  by (induction evs arbitrary: s) (simp_all add: run_Nil run_Cons memo_handle)

text \<open>
  C7: a firing of the updater changes nothing but the current score and the window
  (putting the two old values back gives the old state), and the alerts, the metrics and
  the demographics held since generation are the same after any sequence of events.
\<close>

theorem tick_frame:
  "(intervalCallback s inp)\<lparr>currentBiasScore := currentBiasScore s,
      realtimeData := realtimeData s\<rparr> = s \<and>
   alerts (memo (run s evs)) = alerts (memo s) \<and>
   biasMetrics (memo (run s evs)) = biasMetrics (memo s) \<and>
   demographicData (memo (run s evs)) = demographicData (memo s)"
  by (simp add: memo_run intervalCallback_def)

section \<open>Pausing and resuming\<close>

lemma inv_mount: "timer_inv (mount env)"
  by (simp add: timer_inv_def mount_def Let_def)

lemma inv_handle: "timer_inv s \<Longrightarrow> timer_inv (handle s ev)"
  by (cases ev)
    (auto simp add: timer_inv_def elapse_def intervalCallback_def setRealTimeEnabled_def
      onDateRangeChange_def split: option.splits)

lemma inv_run: "timer_inv s \<Longrightarrow> timer_inv (run s evs)"
  by (induction evs arbitrary: s) (simp_all add: run_Nil run_Cons inv_handle)

lemma paused_no_timer: "timer_inv s \<Longrightarrow> \<not> realTimeEnabled s \<Longrightarrow> interval s = None"
  by (auto simp: timer_inv_def split: option.splits)

lemma elapse_idle: "interval s = None \<Longrightarrow> elapse s inp = s"
  by (simp add: elapse_def)

lemma run_idle: "interval s = None \<Longrightarrow> run s (map Elapse inps) = s"
  by (induction inps) (simp_all add: run_Nil run_Cons elapse_idle)

lemma run_counting:
  "interval s = Some e \<Longrightarrow> e + length inps < 2000 \<Longrightarrow>
     run s (map Elapse inps) = s\<lparr>interval := Some (e + length inps)\<rparr>"
proof (induction inps arbitrary: s e)
  case Nil
  then show ?case by (simp add: run_Nil)
next
  case (Cons inp inps)
  from Cons.prems have step: "elapse s inp = s\<lparr>interval := Some (Suc e)\<rparr>"
    by (simp add: elapse_def)
  have "run (s\<lparr>interval := Some (Suc e)\<rparr>) (map Elapse inps) =
      s\<lparr>interval := Some (Suc e)\<rparr>\<lparr>interval := Some (Suc e + length inps)\<rparr>"
    using Cons.prems by (intro Cons.IH) simp_all
  then show ?case by (simp add: run_Cons step)
qed

lemma resume_fresh:
  "interval s = None \<Longrightarrow> \<not> realTimeEnabled s \<Longrightarrow>
     setRealTimeEnabled s True = s\<lparr>realTimeEnabled := True, interval := Some 0\<rparr>"
  by (simp add: setRealTimeEnabled_def)

text \<open>
  C6: in any state the component can reach in which the flag is off, the passing of any
  amount of time changes nothing (no firing, so the score and the window stay), and
  setting the flag again gives the same state whatever time has passed while paused: the
  timer starts from zero, nothing fires during the first 1999 ms, and the 2000th
  millisecond fires the callback exactly once.
\<close>

theorem paused_updater_frozen:
  assumes reach: "s = run (mount env) evs" and paused: "\<not> realTimeEnabled s"
  shows "run s (map Elapse waits) = s \<and>
    setRealTimeEnabled (run s (map Elapse waits)) True = setRealTimeEnabled s True \<and>
    interval (setRealTimeEnabled s True) = Some 0 \<and>
    (length inps < 2000 \<longrightarrow>
       run (setRealTimeEnabled s True) (map Elapse inps) =
         s\<lparr>realTimeEnabled := True, interval := Some (length inps)\<rparr>) \<and>
    (length inps = 1999 \<longrightarrow>
       run (setRealTimeEnabled s True) (map Elapse (inps @ [inp])) =
         (intervalCallback s inp)\<lparr>realTimeEnabled := True, interval := Some 0\<rparr>)"
proof -
  have "timer_inv s"
    unfolding reach by (rule inv_run) (rule inv_mount)
  then have idle: "interval s = None"
    using paused by (rule paused_no_timer)
  have a: "run s (map Elapse waits) = s"
    using idle by (rule run_idle)
  have r: "setRealTimeEnabled s True = s\<lparr>realTimeEnabled := True, interval := Some 0\<rparr>"
    using idle paused by (rule resume_fresh)
  have c: "interval (setRealTimeEnabled s True) = Some 0"
    by (simp add: r)
  have d: "run (setRealTimeEnabled s True) (map Elapse inps) =
      s\<lparr>realTimeEnabled := True, interval := Some (length inps)\<rparr>" if "length inps < 2000"
  proof -
    have "run (setRealTimeEnabled s True) (map Elapse inps) =
        (setRealTimeEnabled s True)\<lparr>interval := Some (0 + length inps)\<rparr>"
      using c that by (intro run_counting) simp_all
    then show ?thesis by (simp add: r)
  qed
  have e: "run (setRealTimeEnabled s True) (map Elapse (inps @ [inp])) =
      (intervalCallback s inp)\<lparr>realTimeEnabled := True, interval := Some 0\<rparr>"
    if "length inps = 1999"
  proof -
    have "run (setRealTimeEnabled s True) (map Elapse (inps @ [inp])) =
        elapse (run (setRealTimeEnabled s True) (map Elapse inps)) inp"
      by (simp add: run_append run_Cons run_Nil)
    also have "\<dots> = elapse (s\<lparr>realTimeEnabled := True, interval := Some 1999\<rparr>) inp"
      using d that by simp
    also have "\<dots> = (intervalCallback s inp)\<lparr>realTimeEnabled := True, interval := Some 0\<rparr>"
      by (simp add: elapse_def intervalCallback_def)
    finally show ?thesis .
  qed
  from a c d e show ?thesis by simp
qed

theorem paused_updater_frozen_witness:
  "\<not> realTimeEnabled (run (mount demoEnv) [Toggle False]) \<and>
   run (run (mount demoEnv) [Toggle False]) (map Elapse (replicate 5000 demoTick)) =
     run (mount demoEnv) [Toggle False] \<and>
   length (replicate 1999 demoTick) < 2000 \<and>
   currentBiasScore (run (setRealTimeEnabled (run (mount demoEnv) [Toggle False]) True)
       (map Elapse (replicate 1999 demoTick))) = 0.092 \<and>
   currentBiasScore (run (setRealTimeEnabled (run (mount demoEnv) [Toggle False]) True)
       (map Elapse (replicate 1999 demoTick @ [demoTick]))) = 0.087"
proof -
  have p: "\<not> realTimeEnabled (run (mount demoEnv) [Toggle False])"
    by (simp add: run_def setRealTimeEnabled_def mount_def Let_def)
  have s: "currentBiasScore (run (mount demoEnv) [Toggle False]) = 0.092"
    by (simp add: run_def setRealTimeEnabled_def mount_def Let_def)
  have t: "currentBiasScore (intervalCallback (run (mount demoEnv) [Toggle False]) demoTick) =
      0.087"
    by (simp add: intervalCallback_def newScore_def demoTick_def)
  from paused_updater_frozen
    [OF refl p, of "replicate 5000 demoTick" "replicate 1999 demoTick" demoTick]
    p s t show ?thesis
    by simp
qed

section \<open>The date-range handler\<close>

text \<open>
  C8: given \<^verbatim>\<open>null\<close>, an array that does not have exactly two entries, or an array with a
  missing endpoint, the date-range handler returns the state as it was (and the model has
  no error result to raise); given two endpoints it sets the date range to them and
  changes nothing else; so only a complete selection changes the state.
\<close>

theorem incomplete_range_ignored:
  "(dates_arg = None \<or> (\<exists>ds. dates_arg = Some ds \<and> (length ds \<noteq> 2 \<or> None \<in> set ds))
      \<longrightarrow> onDateRangeChange s dates_arg = s) \<and>
   (dates_arg = Some [Some a, Some b]
      \<longrightarrow> onDateRangeChange s dates_arg = s\<lparr>filters := (filters s)\<lparr>dateRange := (a, b)\<rparr>\<rparr>) \<and>
   (onDateRangeChange s dates_arg \<noteq> s \<longrightarrow> (\<exists>x y. dates_arg = Some [Some x, Some y]))"
proof -
  have two: "\<exists>x y. ds = [x, y]" if "length ds = 2" for ds :: "int option list"
    using that by (cases ds; cases "tl ds") auto
  have inc: "onDateRangeChange s (Some ds) = s" if "length ds \<noteq> 2 \<or> None \<in> set ds" for ds
  proof (cases "length ds = 2")
    case True
    then obtain x y where "ds = [x, y]" using two by blast
    with that show ?thesis
      by (auto simp: onDateRangeChange_def split: option.splits)
  next
    case False
    then show ?thesis by (simp add: onDateRangeChange_def)
  qed
  have a: "dates_arg = None \<or>
      (\<exists>ds. dates_arg = Some ds \<and> (length ds \<noteq> 2 \<or> None \<in> set ds))
      \<longrightarrow> onDateRangeChange s dates_arg = s"
    using inc by (auto simp: onDateRangeChange_def)
  have b: "dates_arg = Some [Some a, Some b]
      \<longrightarrow> onDateRangeChange s dates_arg = s\<lparr>filters := (filters s)\<lparr>dateRange := (a, b)\<rparr>\<rparr>"
    by (simp add: onDateRangeChange_def)
  have c: "onDateRangeChange s dates_arg \<noteq> s \<longrightarrow> (\<exists>x y. dates_arg = Some [Some x, Some y])"
  proof
    assume ne: "onDateRangeChange s dates_arg \<noteq> s"
    then obtain ds where ds: "dates_arg = Some ds"
      by (cases dates_arg) (auto simp: onDateRangeChange_def)
    with ne inc have "length ds = 2" "None \<notin> set ds" by auto
    then obtain x y where "ds = [Some x, Some y]"
      using two [of ds] by (metis list.set_intros(1,2) not_None_eq)
    with ds show "\<exists>x y. dates_arg = Some [Some x, Some y]" by blast
  qed
  from a b c show ?thesis by blast
qed

theorem incomplete_range_ignored_witness:
  "onDateRangeChange (mount demoEnv) None = mount demoEnv \<and>
   onDateRangeChange (mount demoEnv) (Some [Some 5, None]) = mount demoEnv \<and>
   onDateRangeChange (mount demoEnv) (Some [Some 5]) = mount demoEnv \<and>
   onDateRangeChange (mount demoEnv) (Some [Some 5, Some 9]) =
     (mount demoEnv)\<lparr>filters := (filters (mount demoEnv))\<lparr>dateRange := (5, 9)\<rparr>\<rparr> \<and>
   dateRange (filters (onDateRangeChange (mount demoEnv) (Some [Some 5, Some 9]))) = (5, 9) \<and>
   dateRange (filters (mount demoEnv)) = (- 2592000000, 0)"
  using incomplete_range_ignored [of None "mount demoEnv" 5 9]
    incomplete_range_ignored [of "Some [Some 5, None]" "mount demoEnv" 5 9]
    incomplete_range_ignored [of "Some [Some 5]" "mount demoEnv" 5 9]
    incomplete_range_ignored [of "Some [Some 5, Some 9]" "mount demoEnv" 5 9]
  by (simp add: mount_def demoEnv_def Let_def)

end
